theory Spec2Isabelle
  imports Main "HOL-Library.Word"
begin

section \<open>ConfidentialCast: the settlement state machine\<close>

text \<open>
  A shallow embedding of the contract \<^verbatim>\<open>ConfidentialCast\<close> (Solidity): its storage is a
  record, every external function a function from the storage and the transaction's
  environment to how the call ends: it reverts with an error, or it returns. Either
  way the result carries the storage as the call has written it up to that point.
  Solidity mappings are total (an absent key reads as the zero value), so they are
  total functions here. Events and the access grants (\<^verbatim>\<open>FHE.allow\<close>) write nothing to
  the contract's storage and are left out.
\<close>

subsection \<open>Machine types\<close>

type_synonym address = "160 word"
type_synonym uint256 = "256 word"
type_synonym uint64 = "64 word"
type_synonym uint8 = "8 word"

subsection \<open>The encrypted-value library\<close>

text \<open>
  The library \<^verbatim>\<open>FHE\<close> is an external dependency. An encrypted value is modelled by the
  cleartext it decrypts to, and each operation by what it computes on cleartexts:
  comparisons are unsigned, \<^verbatim>\<open>FHE.add\<close> on \<^verbatim>\<open>euint64\<close> is addition modulo \<open>2 ^ 64\<close>
  (the library does not check overflow), \<^verbatim>\<open>FHE.select\<close> is the conditional. The
  library reads an uninitialised handle (the zero value of a mapping) as the
  encryption of \<open>0\<close>, respectively \<open>False\<close>, which is the value that stands for it here.
\<close>

type_synonym euint64 = "64 word"
type_synonym euint8 = "8 word"
type_synonym ebool = bool

datatype 'a externalE = ExternalE 'a

text \<open>Of the proof of an external input, only whether the verifier accepts it.\<close>

datatype inputProof = ProofAccepted | ProofRejected

datatype error =
    OnlyOwner
  | InvalidOwner
  | PriceAlreadyUpdated
  | InvalidPrice
  | StakeRequired
  | StakeTooLarge
  | PredictionExists
  | PredictionMissing
  | PredictionAlreadyClaimed
  | ConfirmationTooEarly
  | PriceNotAvailable
  | InputVerificationFailed \<comment> \<open>raised by \<^verbatim>\<open>FHE.fromExternal\<close>, not by the contract\<close>
  | RevertWithoutData \<comment> \<open>the revert of a function that is not \<^verbatim>\<open>payable\<close>, called with value\<close>

definition FHE_fromExternal :: "'a externalE \<Rightarrow> inputProof \<Rightarrow> error + 'a" where
  "FHE_fromExternal x proof' =
     (case proof' of
        ProofRejected \<Rightarrow> Inl InputVerificationFailed
      | ProofAccepted \<Rightarrow> (case x of ExternalE v \<Rightarrow> Inr v))"

definition FHE_asEuint64 :: "uint64 \<Rightarrow> euint64" where
  "FHE_asEuint64 v = v"

definition FHE_asEuint8 :: "uint8 \<Rightarrow> euint8" where
  "FHE_asEuint8 v = v"

definition FHE_gt :: "euint64 \<Rightarrow> euint64 \<Rightarrow> ebool" where
  "FHE_gt a b = (b < a)"

definition FHE_lt :: "euint64 \<Rightarrow> euint64 \<Rightarrow> ebool" where
  "FHE_lt a b = (a < b)"

definition FHE_eq :: "euint8 \<Rightarrow> euint8 \<Rightarrow> ebool" where
  "FHE_eq a b = (a = b)"

definition FHE_and :: "ebool \<Rightarrow> ebool \<Rightarrow> ebool" where
  "FHE_and a b = (a \<and> b)"

definition FHE_or :: "ebool \<Rightarrow> ebool \<Rightarrow> ebool" where
  "FHE_or a b = (a \<or> b)"

definition FHE_select :: "ebool \<Rightarrow> euint64 \<Rightarrow> euint64 \<Rightarrow> euint64" where
  "FHE_select c a b = (if c then a else b)"

definition FHE_add :: "euint64 \<Rightarrow> euint64 \<Rightarrow> euint64" where
  "FHE_add a b = a + b"

subsection \<open>Storage\<close>

record Prediction =
  price :: euint64
  direction :: euint8
  stake :: uint64
  submittedAt :: uint256
  claimed :: bool

text \<open>
  The field \<^verbatim>\<open>price\<close> of \<^verbatim>\<open>DailyPrice\<close> is \<open>dayPrice\<close> here: a record field is a
  constant, and \<open>price\<close> is the field of \<open>Prediction\<close>.
\<close>

record DailyPrice =
  dayPrice :: uint64
  timestamp :: uint256

record State =
  owner :: address
  lastPriceDay :: uint256
  dailyPrices :: "uint256 \<Rightarrow> DailyPrice"
  predictions :: "address \<Rightarrow> uint256 \<Rightarrow> Prediction"
  points :: "address \<Rightarrow> euint64"
  lastResult :: "address \<Rightarrow> ebool"

text \<open>What a transaction brings with it: \<^verbatim>\<open>msg.sender\<close>, \<^verbatim>\<open>msg.value\<close>, \<^verbatim>\<open>block.timestamp\<close>.\<close>

record Env =
  msg_sender :: address
  msg_value :: uint256
  block_timestamp :: uint256

definition noPrediction :: Prediction where
  "noPrediction = \<lparr>price = 0, direction = 0, stake = 0, submittedAt = 0, claimed = False\<rparr>"

definition noDailyPrice :: DailyPrice where
  "noDailyPrice = \<lparr>dayPrice = 0, timestamp = 0\<rparr>"

subsection \<open>The contract's functions\<close>

text \<open>
  A call that reverts is \<open>Inl\<close> of its error and of the storage at the point of the
  revert; a call that returns is \<open>Inr\<close> of the storage it leaves.
\<close>

type_synonym result = "(error \<times> State) + State"

text \<open>
  Only \<^verbatim>\<open>submitPrediction\<close> is \<^verbatim>\<open>payable\<close>. Every other function, and the constructor,
  starts with the check that the compiler puts in: a call that carries value reverts,
  with no error data, before the modifiers and the body.
\<close>

definition nonPayable :: "State \<Rightarrow> Env \<Rightarrow> result \<Rightarrow> result" where
  "nonPayable s env body = (if msg_value env \<noteq> 0 then Inl (RevertWithoutData, s) else body)"

text \<open>The constructor has no storage to start from: when it reverts, no contract exists.\<close>

definition constructor :: "Env \<Rightarrow> error + State" where
  "constructor env =
     (if msg_value env \<noteq> 0 then Inl RevertWithoutData
      else Inr
        \<lparr>owner = msg_sender env,
         lastPriceDay = 0,
         dailyPrices = (\<lambda>_. noDailyPrice),
         predictions = (\<lambda>_ _. noPrediction),
         points = (\<lambda>_. 0),
         lastResult = (\<lambda>_. False)\<rparr>)"

text \<open>The modifier \<^verbatim>\<open>onlyOwner\<close>: its check, then the body of the function.\<close>

definition onlyOwner :: "State \<Rightarrow> Env \<Rightarrow> result \<Rightarrow> result" where
  "onlyOwner s env body =
     (if msg_sender env \<noteq> owner s then Inl (OnlyOwner, s) else body)"

definition transferOwnership :: "State \<Rightarrow> Env \<Rightarrow> address \<Rightarrow> result" where
  "transferOwnership s env newOwner =
     nonPayable s env
       (onlyOwner s env
          (if newOwner = 0 then Inl (InvalidOwner, s)
           else Inr (s\<lparr>owner := newOwner\<rparr>)))"

definition getCurrentDay :: "Env \<Rightarrow> uint256" where
  "getCurrentDay env = block_timestamp env div 86400"

definition updateDailyPrice :: "State \<Rightarrow> Env \<Rightarrow> uint64 \<Rightarrow> result" where
  "updateDailyPrice s env p =
     nonPayable s env
       (onlyOwner s env
          (if p = 0 then Inl (InvalidPrice, s)
           else
             let day = getCurrentDay env in
             if day \<le> lastPriceDay s then Inl (PriceAlreadyUpdated, s)
             else Inr (s\<lparr>dailyPrices := (dailyPrices s)
                            (day := \<lparr>dayPrice = p, timestamp = block_timestamp env\<rparr>),
                         lastPriceDay := day\<rparr>)))"

definition submitPrediction ::
  "State \<Rightarrow> Env \<Rightarrow> uint64 externalE \<Rightarrow> uint8 externalE \<Rightarrow> inputProof \<Rightarrow> result" where
  "submitPrediction s env predictedPriceInput directionInput proof' =
     (if msg_value env = 0 then Inl (StakeRequired, s)
      else if msg_value env > 0xFFFFFFFFFFFFFFFF then Inl (StakeTooLarge, s)
      else
        let day = getCurrentDay env;
            prediction = predictions s (msg_sender env) day
        in
        if stake prediction \<noteq> 0 then Inl (PredictionExists, s)
        else
          (case FHE_fromExternal predictedPriceInput proof' of
             Inl e \<Rightarrow> Inl (e, s)
           | Inr predictedPrice \<Rightarrow>
          (case FHE_fromExternal directionInput proof' of
             Inl e \<Rightarrow> Inl (e, s)
           | Inr dir \<Rightarrow>
               Inr (s\<lparr>predictions := (predictions s)
                      (msg_sender env := (predictions s (msg_sender env))
                         (day := prediction
                            \<lparr>price := predictedPrice,
                             direction := dir,
                             stake := ucast (msg_value env),
                             submittedAt := block_timestamp env,
                             claimed := False\<rparr>))\<rparr>))))"

text \<open>
  The internal functions \<^verbatim>\<open>_checkPrediction\<close> and \<^verbatim>\<open>_calculateReward\<close>, without the
  underscore, which cannot start a name here.
\<close>

definition checkPrediction :: "Prediction \<Rightarrow> uint64 \<Rightarrow> ebool" where
  "checkPrediction prediction p =
     (let actualPrice = FHE_asEuint64 p;
          isGreater = FHE_gt actualPrice (price prediction);
          isLess = FHE_lt actualPrice (price prediction);
          wantsGreater = FHE_eq (direction prediction) (FHE_asEuint8 1);
          wantsLess = FHE_eq (direction prediction) (FHE_asEuint8 2)
      in FHE_or (FHE_and wantsGreater isGreater) (FHE_and wantsLess isLess))"

definition calculateReward :: "uint64 \<Rightarrow> ebool \<Rightarrow> euint64" where
  "calculateReward stk didWin = FHE_select didWin (FHE_asEuint64 stk) (FHE_asEuint64 0)"

definition confirmPrediction :: "State \<Rightarrow> Env \<Rightarrow> uint256 \<Rightarrow> result" where
  "confirmPrediction s env day =
     nonPayable s env
       (let prediction = predictions s (msg_sender env) day in
        if stake prediction = 0 then Inl (PredictionMissing, s)
        else if claimed prediction then Inl (PredictionAlreadyClaimed, s)
        else if day \<ge> getCurrentDay env then Inl (ConfirmationTooEarly, s)
        else
          let record = dailyPrices s day in
          if timestamp record = 0 then Inl (PriceNotAvailable, s)
          else
            let didWin = checkPrediction prediction (dayPrice record);
                awarded = calculateReward (stake prediction) didWin
            in Inr (s\<lparr>points := (points s)
                         (msg_sender env := FHE_add (points s (msg_sender env)) awarded),
                      lastResult := (lastResult s)(msg_sender env := didWin),
                      predictions := (predictions s)
                         (msg_sender env := (predictions s (msg_sender env))
                            (day := prediction\<lparr>claimed := True\<rparr>))\<rparr>))"

subsection \<open>Transactions\<close>

datatype call =
    TransferOwnership address
  | UpdateDailyPrice uint64
  | SubmitPrediction "uint64 externalE" "uint8 externalE" inputProof
  | ConfirmPrediction uint256

fun dispatch :: "State \<Rightarrow> Env \<Rightarrow> call \<Rightarrow> result" where
  "dispatch s env (TransferOwnership newOwner) = transferOwnership s env newOwner"
| "dispatch s env (UpdateDailyPrice p) = updateDailyPrice s env p"
| "dispatch s env (SubmitPrediction x d pr) = submitPrediction s env x d pr"
| "dispatch s env (ConfirmPrediction day) = confirmPrediction s env day"

text \<open>
  A transaction: the virtual machine discards what a reverted call has written and
  goes back to the storage before the call.
\<close>

definition execute :: "State \<Rightarrow> Env \<Rightarrow> call \<Rightarrow> State" where
  "execute s env c = (case dispatch s env c of Inl (e, s') \<Rightarrow> s | Inr s' \<Rightarrow> s')"

fun run :: "State \<Rightarrow> (Env \<times> call) list \<Rightarrow> State" where
  "run s [] = s"
| "run s ((env, c) # txs) = run (execute s env c) txs"

text \<open>
  The states the contract can be in: deployed by an account (a transaction's sender is
  never the null account), then any transactions, with any sender, value and time.
\<close>

inductive reachable :: "State \<Rightarrow> bool" where
  deployed: "msg_sender env \<noteq> 0 \<Longrightarrow> constructor env = Inr s \<Longrightarrow> reachable s"
| executed: "reachable s \<Longrightarrow> reachable (execute s env c)"

subsection \<open>Scenarios\<close>

text \<open>
  Concrete transactions, after the scenario of the specification: the owner (account 1)
  deploys the contract in period 100, which gives \<open>deployed100\<close>, and records 64000 for
  that period, which gives \<open>firstRecord\<close>; accounts 2 to 5 then submit forecasts in
  period 100, with a stake of 0.05 ether each, and account 2 submits another one in
  period 101, for which nothing is recorded.
\<close>

definition envAt :: "address \<Rightarrow> uint256 \<Rightarrow> uint256 \<Rightarrow> Env" where
  "envAt sender val day =
     \<lparr>msg_sender = sender, msg_value = val, block_timestamp = day * 86400\<rparr>"

definition deployed100 :: State where
  "deployed100 = projr (constructor (envAt 1 0 100))"

definition firstRecord :: State where
  "firstRecord = execute deployed100 (envAt 1 0 100) (UpdateDailyPrice 64000)"

definition scenario :: State where
  "scenario = run deployed100
     [(envAt 1 0 100, UpdateDailyPrice 64000),
      (envAt 2 50000000000000000 100,
         SubmitPrediction (ExternalE 63000) (ExternalE 1) ProofAccepted),
      (envAt 3 50000000000000000 100,
         SubmitPrediction (ExternalE 65000) (ExternalE 2) ProofAccepted),
      (envAt 4 50000000000000000 100,
         SubmitPrediction (ExternalE 64000) (ExternalE 1) ProofAccepted),
      (envAt 5 50000000000000000 100,
         SubmitPrediction (ExternalE 63000) (ExternalE 2) ProofAccepted),
      (envAt 2 50000000000000000 101,
         SubmitPrediction (ExternalE 70000) (ExternalE 1) ProofAccepted)]"

text \<open>Account 2 has confirmed its forecast of period 100, in period 101.\<close>

definition settled :: State where
  "settled = execute scenario (envAt 2 0 101) (ConfirmPrediction 100)"

text \<open>
  Account 2 stakes \<open>2 ^ 63\<close> wei in each of the periods 100 and 101, is right both
  times, and has confirmed the first forecast.
\<close>

definition largeStakes :: State where
  "largeStakes = run deployed100
     [(envAt 1 0 100, UpdateDailyPrice 64000),
      (envAt 2 9223372036854775808 100,
         SubmitPrediction (ExternalE 63000) (ExternalE 1) ProofAccepted),
      (envAt 1 0 101, UpdateDailyPrice 64000),
      (envAt 2 9223372036854775808 101,
         SubmitPrediction (ExternalE 63000) (ExternalE 1) ProofAccepted),
      (envAt 2 0 102, ConfirmPrediction 100)]"

text \<open>The contract is deployed in period 0, and account 2 submits a forecast in it.\<close>

definition periodZero :: State where
  "periodZero = run (projr (constructor (envAt 1 0 0)))
     [(envAt 2 5 0, SubmitPrediction (ExternalE 7) (ExternalE 1) ProofAccepted)]"

section \<open>Properties\<close>

subsection \<open>Auxiliary facts\<close>

lemmas call_defs = transferOwnership_def updateDailyPrice_def submitPrediction_def
  confirmPrediction_def onlyOwner_def nonPayable_def FHE_fromExternal_def

lemmas eval_defs = envAt_def constructor_def execute_def call_defs getCurrentDay_def
  checkPrediction_def calculateReward_def FHE_asEuint64_def FHE_asEuint8_def FHE_gt_def
  FHE_lt_def FHE_eq_def FHE_and_def FHE_or_def FHE_select_def FHE_add_def noPrediction_def
  noDailyPrice_def Let_def

text \<open>A stake that passed the two checks of \<^verbatim>\<open>submitPrediction\<close> is stored as a nonzero stake.\<close>

lemma ucast_stake_nonzero:
  fixes v :: uint256
  assumes "v \<noteq> 0" "v \<le> 0xFFFFFFFFFFFFFFFF"
  shows "(ucast v :: uint64) \<noteq> 0"
proof -
  have "unat v \<le> unat (0xFFFFFFFFFFFFFFFF :: uint256)"
    using assms(2) by (simp only: word_le_nat_alt)
  then have "unat v < 2 ^ 64" by simp
  then have "unat (ucast v :: uint64) = unat v"
    by (simp add: unsigned_ucast_eq take_bit_nat_eq_self)
  moreover have "0 < unat v" using assms(1) by (simp add: unat_gt_0)
  ultimately have "0 < unat (ucast v :: uint64)" by simp
  then show ?thesis by (simp add: unat_gt_0)
qed

lemma word_le_add_no_overflow:
  fixes a r :: uint64
  assumes "unat a + unat r < 2 ^ 64"
  shows "a \<le> a + r"
  using assms by (simp add: no_olen_add_nat)

lemma unat_add_no_overflow:
  fixes a r :: uint64
  assumes "unat a + unat r < 2 ^ 64"
  shows "unat (a + r) = unat a + unat r"
  using assms unat_add_lem [of a r] by simp

text \<open>
  Every revert comes before the first write of its function: the storage at the point
  of a revert is the storage before the call.
\<close>

lemma revert_before_write: "dispatch s env c = Inl (e, s') \<Longrightarrow> s' = s"
  by (cases c)
    (auto simp: call_defs Let_def split: if_splits sum.splits inputProof.splits externalE.splits)

text \<open>No transaction lowers \<open>lastPriceDay\<close>, deletes a forecast or reopens a settled one.\<close>

lemma execute_lastPriceDay: "lastPriceDay s \<le> lastPriceDay (execute s env c)"
  by (cases c)
    (auto simp: execute_def call_defs Let_def
      split: sum.splits inputProof.splits externalE.splits if_splits)

lemma run_lastPriceDay: "lastPriceDay s \<le> lastPriceDay (run s txs)"
proof (induction txs arbitrary: s)
  case Nil
  show ?case by simp
next
  case (Cons t txs)
  obtain env c where t: "t = (env, c)" by (cases t)
  have "lastPriceDay s \<le> lastPriceDay (execute s env c)" by (rule execute_lastPriceDay)
  also have "\<dots> \<le> lastPriceDay (run (execute s env c) txs)" by (rule Cons.IH)
  finally show ?case by (simp add: t)
qed

lemma execute_stake:
  "stake (predictions s a d) \<noteq> 0 \<Longrightarrow> stake (predictions (execute s env c) a d) \<noteq> 0"
  by (cases c)
    (auto simp: execute_def call_defs Let_def
      split: sum.splits inputProof.splits externalE.splits if_splits)

lemma execute_claimed:
  "stake (predictions s a d) \<noteq> 0 \<Longrightarrow> claimed (predictions s a d) \<Longrightarrow>
   claimed (predictions (execute s env c) a d)"
  by (cases c)
    (auto simp: execute_def call_defs Let_def
      split: sum.splits inputProof.splits externalE.splits if_splits)

lemma run_stake_claimed:
  "stake (predictions s a d) \<noteq> 0 \<Longrightarrow>
   stake (predictions (run s txs) a d) \<noteq> 0 \<and>
   (claimed (predictions s a d) \<longrightarrow> claimed (predictions (run s txs) a d))"
proof (induction txs arbitrary: s)
  case Nil
  then show ?case by simp
next
  case (Cons t txs)
  obtain env c where t: "t = (env, c)" by (cases t)
  from Cons.prems have 1: "stake (predictions (execute s env c) a d) \<noteq> 0"
    by (rule execute_stake)
  from Cons.IH [OF 1] execute_claimed [OF Cons.prems] show ?case by (simp add: t)
qed

text \<open>Invariants of the reachable states.\<close>

lemma reachable_run: "reachable s \<Longrightarrow> reachable (run s txs)"
proof (induction txs arbitrary: s)
  case Nil
  then show ?case by simp
next
  case (Cons t txs)
  obtain env c where t: "t = (env, c)" by (cases t)
  from Cons.prems have "reachable (execute s env c)" by (rule reachable.executed)
  then show ?case by (simp add: t Cons.IH)
qed

lemma reachable_owner: "reachable s \<Longrightarrow> owner s \<noteq> 0"
proof (induction rule: reachable.induct)
  case (deployed env s)
  then show ?case by (auto simp: constructor_def split: if_splits)
next
  case (executed s env c)
  then show ?case
    by (cases c)
      (auto simp: execute_def call_defs Let_def
        split: sum.splits inputProof.splits externalE.splits if_splits)
qed

lemma reachable_day0: "reachable s \<Longrightarrow> dailyPrices s 0 = noDailyPrice"
proof (induction rule: reachable.induct)
  case (deployed env s)
  then show ?case by (auto simp: constructor_def split: if_splits)
next
  case (executed s env c)
  then show ?case
    by (cases c)
      (auto simp: execute_def call_defs Let_def
        split: sum.splits inputProof.splits externalE.splits if_splits)
qed

lemma reachable_claimed:
  "reachable s \<Longrightarrow> claimed (predictions s a d) \<Longrightarrow>
   stake (predictions s a d) \<noteq> 0 \<and> timestamp (dailyPrices s d) \<noteq> 0"
proof (induction arbitrary: a d rule: reachable.induct)
  case (deployed env s)
  then show ?case by (auto simp: constructor_def noPrediction_def split: if_splits)
next
  case (executed s env c)
  show ?case
  proof (cases c)
    case (TransferOwnership n)
    with executed show ?thesis
      by (auto simp: execute_def call_defs split: if_splits)
  next
    case (UpdateDailyPrice p)
    with executed show ?thesis
      by (auto simp: execute_def call_defs Let_def getCurrentDay_def split: if_splits)
  next
    case (SubmitPrediction x dr pr)
    with executed show ?thesis
      by (auto simp: execute_def call_defs Let_def
          split: if_splits inputProof.splits externalE.splits)
  next
    case (ConfirmPrediction day)
    with executed show ?thesis
      by (auto simp: execute_def call_defs Let_def split: if_splits)
  qed
qed

text \<open>The scenarios, evaluated.\<close>

lemma deployed100_eval:
  "constructor (envAt 1 0 100) = Inr deployed100"
  "deployed100 = \<lparr>owner = 1, lastPriceDay = 0, dailyPrices = (\<lambda>_. noDailyPrice),
     predictions = (\<lambda>_ _. noPrediction), points = (\<lambda>_. 0), lastResult = (\<lambda>_. False)\<rparr>"
  by (simp_all add: deployed100_def constructor_def envAt_def)

lemma deployed100_reachable: "reachable deployed100"
  by (rule reachable.deployed [OF _ deployed100_eval(1)]) (simp add: envAt_def)

lemma firstRecord_eval:
  "firstRecord = deployed100\<lparr>dailyPrices := (\<lambda>_. noDailyPrice)
       (100 := \<lparr>dayPrice = 64000, timestamp = 8640000\<rparr>), lastPriceDay := 100\<rparr>"
  by (simp add: firstRecord_def deployed100_eval(2) eval_defs)

lemma scenario_eval:
  "scenario = \<lparr>owner = 1, lastPriceDay = 100,
     dailyPrices = (\<lambda>_. noDailyPrice)(100 := \<lparr>dayPrice = 64000, timestamp = 8640000\<rparr>),
     predictions = (\<lambda>_ _. noPrediction)
       (3 := (\<lambda>_. noPrediction)
          (100 := \<lparr>price = 65000, direction = 2, stake = 50000000000000000,
                    submittedAt = 8640000, claimed = False\<rparr>),
        4 := (\<lambda>_. noPrediction)
          (100 := \<lparr>price = 64000, direction = 1, stake = 50000000000000000,
                    submittedAt = 8640000, claimed = False\<rparr>),
        5 := (\<lambda>_. noPrediction)
          (100 := \<lparr>price = 63000, direction = 2, stake = 50000000000000000,
                    submittedAt = 8640000, claimed = False\<rparr>),
        2 := (\<lambda>_. noPrediction)
          (100 := \<lparr>price = 63000, direction = 1, stake = 50000000000000000,
                    submittedAt = 8640000, claimed = False\<rparr>,
           101 := \<lparr>price = 70000, direction = 1, stake = 50000000000000000,
                    submittedAt = 8726400, claimed = False\<rparr>)),
     points = (\<lambda>_. 0), lastResult = (\<lambda>_. False)\<rparr>"
  by (simp add: scenario_def deployed100_eval(2) eval_defs)

lemma scenario_reachable: "reachable scenario"
  unfolding scenario_def by (rule reachable_run) (rule deployed100_reachable)

lemma settled_eval:
  "settled = scenario\<lparr>points := (\<lambda>_. 0)(2 := 50000000000000000),
     lastResult := (\<lambda>_. False)(2 := True),
     predictions := (predictions scenario)(2 := (predictions scenario 2)
        (100 := (predictions scenario 2 100)\<lparr>claimed := True\<rparr>))\<rparr>"
  by (simp add: settled_def scenario_eval eval_defs)

lemma settled_reachable: "reachable settled"
  unfolding settled_def by (rule reachable.executed) (rule scenario_reachable)

lemma largeStakes_reachable: "reachable largeStakes"
  unfolding largeStakes_def by (rule reachable_run) (rule deployed100_reachable)

lemma periodZero_reachable: "reachable periodZero"
  unfolding periodZero_def
  by (rule reachable_run, rule reachable.deployed [where env = "envAt 1 0 0"])
    (simp_all add: envAt_def constructor_def)

subsection \<open>Settlement\<close>

text \<open>
  Claim C1, as the code has it. A call of \<^verbatim>\<open>confirmPrediction\<close> that carries no value
  and passes the four checks (the forecast exists, is not claimed, its day is before the
  current day, a price is recorded for that day) succeeds, and: if the direction is 1
  and the recorded price is strictly above the target, \<open>lastResult\<close> of the caller is
  true and the caller's points are the sum of the old points and the stake that
  \<^verbatim>\<open>FHE.add\<close> computes on \<^verbatim>\<open>euint64\<close>, that is, modulo \<open>2 ^ 64\<close>; the same if the
  direction is 2 and the recorded price is strictly below the target; if the recorded
  price equals the target then, whatever the direction, \<open>lastResult\<close> is false and the
  points are what they were. Where the points are the sum and old points plus stake is
  below \<open>2 ^ 64\<close>, they have increased by exactly the stake.
\<close>

theorem confirmPrediction_reward:
  assumes "msg_value env = 0"
    and "stake (predictions s (msg_sender env) day) \<noteq> 0"
    and "\<not> claimed (predictions s (msg_sender env) day)"
    and "day < getCurrentDay env"
    and "timestamp (dailyPrices s day) \<noteq> 0"
  shows "\<exists>s'. confirmPrediction s env day = Inr s' \<and>
    (direction (predictions s (msg_sender env) day) = 1 \<and>
     price (predictions s (msg_sender env) day) < dayPrice (dailyPrices s day) \<longrightarrow>
       lastResult s' (msg_sender env) = True \<and>
       points s' (msg_sender env) =
         points s (msg_sender env) + stake (predictions s (msg_sender env) day)) \<and>
    (direction (predictions s (msg_sender env) day) = 2 \<and>
     dayPrice (dailyPrices s day) < price (predictions s (msg_sender env) day) \<longrightarrow>
       lastResult s' (msg_sender env) = True \<and>
       points s' (msg_sender env) =
         points s (msg_sender env) + stake (predictions s (msg_sender env) day)) \<and>
    (dayPrice (dailyPrices s day) = price (predictions s (msg_sender env) day) \<longrightarrow>
       lastResult s' (msg_sender env) = False \<and>
       points s' (msg_sender env) = points s (msg_sender env)) \<and>
    (points s' (msg_sender env) =
       points s (msg_sender env) + stake (predictions s (msg_sender env) day) \<and>
     unat (points s (msg_sender env)) + unat (stake (predictions s (msg_sender env) day))
       < 2 ^ 64 \<longrightarrow>
       unat (points s' (msg_sender env)) =
         unat (points s (msg_sender env)) +
         unat (stake (predictions s (msg_sender env) day)))"
proof -
  let ?a = "msg_sender env"
  let ?P = "predictions s ?a day"
  let ?won = "checkPrediction ?P (dayPrice (dailyPrices s day))"
  let ?s' = "s\<lparr>points := (points s)(?a := FHE_add (points s ?a) (calculateReward (stake ?P) ?won)),
                lastResult := (lastResult s)(?a := ?won),
                predictions := (predictions s)(?a := (predictions s ?a)
                  (day := ?P\<lparr>claimed := True\<rparr>))\<rparr>"
  from assms have c: "confirmPrediction s env day = Inr ?s'"
    by (simp add: confirmPrediction_def nonPayable_def Let_def)
  have w: "?won = (direction ?P = 1 \<and> price ?P < dayPrice (dailyPrices s day) \<or>
                   direction ?P = 2 \<and> dayPrice (dailyPrices s day) < price ?P)"
    by (simp add: checkPrediction_def FHE_asEuint64_def FHE_asEuint8_def FHE_gt_def FHE_lt_def
        FHE_eq_def FHE_and_def FHE_or_def Let_def)
  have p: "points ?s' ?a = points s ?a + (if ?won then stake ?P else 0)"
    by (simp add: calculateReward_def FHE_select_def FHE_add_def FHE_asEuint64_def)
  have l: "lastResult ?s' ?a = ?won" by simp
  have n: "unat (points ?s' ?a) = unat (points s ?a) + unat (stake ?P)"
    if "points ?s' ?a = points s ?a + stake ?P"
      and "unat (points s ?a) + unat (stake ?P) < 2 ^ 64"
    using that unat_add_no_overflow [of "points s ?a" "stake ?P"] by simp
  from w p l n show ?thesis
    unfolding c by (intro exI [of _ ?s'] conjI impI refl) auto
qed

text \<open>
  Against the claim as written. Account 2 has \<open>2 ^ 63\<close> points and a forecast of period
  101 with the direction 1, the target 63000 and a stake of \<open>2 ^ 63\<close> wei; the recorded
  price is 64000. Its confirmation in period 102 passes the four checks and sets
  \<open>lastResult\<close>, and its points are 0 afterwards. And in the scenario, the confirmation of
  account 2 for period 100, in period 101, with 1 wei attached, reverts without error
  data, though the forecast exists, is not claimed and has its price.
\<close>

theorem confirmPrediction_reward_counterexample:
  "predictions largeStakes 2 101 =
     \<lparr>price = 63000, direction = 1, stake = 9223372036854775808,
      submittedAt = 8726400, claimed = False\<rparr> \<and>
   dailyPrices largeStakes 101 = \<lparr>dayPrice = 64000, timestamp = 8726400\<rparr> \<and>
   getCurrentDay (envAt 2 0 102) = 102 \<and>
   \<not> isl (confirmPrediction largeStakes (envAt 2 0 102) 101) \<and>
   lastResult (execute largeStakes (envAt 2 0 102) (ConfirmPrediction 101)) 2 = True \<and>
   unat (points largeStakes 2) = 9223372036854775808 \<and>
   unat (points (execute largeStakes (envAt 2 0 102) (ConfirmPrediction 101)) 2) = 0 \<and>
   predictions scenario 2 100 =
     \<lparr>price = 63000, direction = 1, stake = 50000000000000000,
      submittedAt = 8640000, claimed = False\<rparr> \<and>
   dailyPrices scenario 100 = \<lparr>dayPrice = 64000, timestamp = 8640000\<rparr> \<and>
   getCurrentDay (envAt 2 1 101) = 101 \<and>
   confirmPrediction scenario (envAt 2 1 101) 100 = Inl (RevertWithoutData, scenario)"
proof -
  have "predictions largeStakes 2 101 =
     \<lparr>price = 63000, direction = 1, stake = 9223372036854775808,
      submittedAt = 8726400, claimed = False\<rparr> \<and>
   dailyPrices largeStakes 101 = \<lparr>dayPrice = 64000, timestamp = 8726400\<rparr> \<and>
   getCurrentDay (envAt 2 0 102) = 102 \<and>
   \<not> isl (confirmPrediction largeStakes (envAt 2 0 102) 101) \<and>
   lastResult (execute largeStakes (envAt 2 0 102) (ConfirmPrediction 101)) 2 = True \<and>
   unat (points largeStakes 2) = 9223372036854775808 \<and>
   unat (points (execute largeStakes (envAt 2 0 102) (ConfirmPrediction 101)) 2) = 0"
    by (simp add: largeStakes_def deployed100_eval(2) eval_defs)
  moreover have "predictions scenario 2 100 =
     \<lparr>price = 63000, direction = 1, stake = 50000000000000000,
      submittedAt = 8640000, claimed = False\<rparr> \<and>
   dailyPrices scenario 100 = \<lparr>dayPrice = 64000, timestamp = 8640000\<rparr> \<and>
   getCurrentDay (envAt 2 1 101) = 101 \<and>
   confirmPrediction scenario (envAt 2 1 101) 100 = Inl (RevertWithoutData, scenario)"
    by (simp add: scenario_eval envAt_def getCurrentDay_def confirmPrediction_def
        nonPayable_def)
  ultimately show ?thesis by blast
qed

text \<open>
  In the scenario, in period 101: account 2 (above 63000) and account 3 (below 65000)
  win their stake, account 4 (target 64000, the recorded price) does not.
\<close>

theorem confirmPrediction_reward_witness:
  "(\<exists>s'. confirmPrediction scenario (envAt 2 0 101) 100 = Inr s' \<and>
      lastResult s' 2 = True \<and> points s' 2 = 50000000000000000) \<and>
   (\<exists>s'. confirmPrediction scenario (envAt 3 0 101) 100 = Inr s' \<and>
      lastResult s' 3 = True \<and> points s' 3 = 50000000000000000) \<and>
   (\<exists>s'. confirmPrediction scenario (envAt 4 0 101) 100 = Inr s' \<and>
      lastResult s' 4 = False \<and> points s' 4 = 0)"
  using confirmPrediction_reward [of "envAt 2 0 101" scenario 100]
    confirmPrediction_reward [of "envAt 3 0 101" scenario 100]
    confirmPrediction_reward [of "envAt 4 0 101" scenario 100]
  by (simp add: scenario_eval envAt_def getCurrentDay_def noDailyPrice_def noPrediction_def)

text \<open>
  Claim C2, as the code has it. In a reachable state, where the caller's forecast for a
  day is claimed, every call of \<^verbatim>\<open>confirmPrediction\<close> for that day fails: with
  \<open>PredictionAlreadyClaimed\<close> when it carries no value, and without error data when it
  carries value, since the function is not payable. The call has written nothing when it
  reverts, and the transaction leaves the whole storage, so the points and the last
  result of every account, as it was. Hence after a successful confirmation, and
  whatever transactions follow it, a confirmation of the same day by the same account
  fails in that way and credits nothing.
\<close>

theorem confirmPrediction_already_claimed:
  "(reachable s \<and> claimed (predictions s (msg_sender env) day) \<longrightarrow>
      confirmPrediction s env day =
        Inl (if msg_value env \<noteq> 0 then RevertWithoutData else PredictionAlreadyClaimed, s) \<and>
      execute s env (ConfirmPrediction day) = s) \<and>
   (confirmPrediction s env day = Inr s1 \<and> msg_sender env' = msg_sender env \<longrightarrow>
      confirmPrediction (run s1 txs) env' day =
        Inl (if msg_value env' \<noteq> 0 then RevertWithoutData else PredictionAlreadyClaimed,
             run s1 txs) \<and>
      execute (run s1 txs) env' (ConfirmPrediction day) = run s1 txs)"
proof -
  have k: "confirmPrediction t e day =
        Inl (if msg_value e \<noteq> 0 then RevertWithoutData else PredictionAlreadyClaimed, t) \<and>
      execute t e (ConfirmPrediction day) = t"
    if "stake (predictions t (msg_sender e) day) \<noteq> 0"
      and "claimed (predictions t (msg_sender e) day)" for t e
    using that by (simp add: execute_def confirmPrediction_def nonPayable_def)
  have 1: "confirmPrediction s env day =
        Inl (if msg_value env \<noteq> 0 then RevertWithoutData else PredictionAlreadyClaimed, s) \<and>
      execute s env (ConfirmPrediction day) = s"
    if "reachable s \<and> claimed (predictions s (msg_sender env) day)"
    using that reachable_claimed [of s "msg_sender env" day] by (intro k) simp_all
  have 2: "confirmPrediction (run s1 txs) env' day =
        Inl (if msg_value env' \<noteq> 0 then RevertWithoutData else PredictionAlreadyClaimed,
             run s1 txs) \<and>
      execute (run s1 txs) env' (ConfirmPrediction day) = run s1 txs"
    if a: "confirmPrediction s env day = Inr s1 \<and> msg_sender env' = msg_sender env"
  proof -
    from a have "stake (predictions s1 (msg_sender env') day) \<noteq> 0 \<and>
      claimed (predictions s1 (msg_sender env') day)"
      by (auto simp: confirmPrediction_def nonPayable_def Let_def split: if_splits)
    then have "stake (predictions (run s1 txs) (msg_sender env') day) \<noteq> 0 \<and>
      claimed (predictions (run s1 txs) (msg_sender env') day)"
      using run_stake_claimed by blast
    then show ?thesis by (intro k) simp_all
  qed
  from 1 2 show ?thesis by blast
qed

text \<open>
  Against the claim as written: account 2, whose forecast of period 100 is claimed,
  confirms it again in period 102 with 1 wei attached, and the call reverts without
  error data.
\<close>

theorem confirmPrediction_already_claimed_counterexample:
  "reachable settled \<and> claimed (predictions settled 2 100) \<and>
   confirmPrediction settled (envAt 2 1 102) 100 = Inl (RevertWithoutData, settled)"
proof -
  have "claimed (predictions settled 2 100)"
    by (simp add: settled_eval)
  moreover have "confirmPrediction settled (envAt 2 1 102) 100 = Inl (RevertWithoutData, settled)"
    by (simp add: confirmPrediction_def nonPayable_def envAt_def)
  ultimately show ?thesis using settled_reachable by simp
qed

text \<open>
  Account 2 confirms period 100 a second time, in period 102, directly and after the
  owner has recorded the price of period 102.
\<close>

theorem confirmPrediction_already_claimed_witness:
  "reachable settled \<and> claimed (predictions settled 2 100) \<and>
   confirmPrediction settled (envAt 2 0 102) 100 = Inl (PredictionAlreadyClaimed, settled) \<and>
   execute settled (envAt 2 0 102) (ConfirmPrediction 100) = settled \<and>
   confirmPrediction scenario (envAt 2 0 101) 100 = Inr settled \<and>
   confirmPrediction (run settled [(envAt 1 0 102, UpdateDailyPrice 66000)])
     (envAt 2 0 102) 100 =
       Inl (PredictionAlreadyClaimed, run settled [(envAt 1 0 102, UpdateDailyPrice 66000)])"
proof -
  have c: "claimed (predictions settled 2 100)"
    by (simp add: settled_eval)
  have f: "confirmPrediction scenario (envAt 2 0 101) 100 = Inr settled"
    by (simp add: settled_def execute_def scenario_eval eval_defs)
  from settled_reachable c f
    confirmPrediction_already_claimed [of settled "envAt 2 0 102" 100]
    confirmPrediction_already_claimed
      [of scenario "envAt 2 0 101" 100 settled "envAt 2 0 102"
        "[(envAt 1 0 102, UpdateDailyPrice 66000)]"]
  show ?thesis by (simp add: envAt_def)
qed

text \<open>
  Claim C9. A successful \<^verbatim>\<open>confirmPrediction\<close> writes three things only: the caller's
  points, the caller's last result, and the flag \<open>claimed\<close> of the caller's forecast for
  that day. The owner, \<open>lastPriceDay\<close>, every recorded price, every forecast under another
  (account, day), the other fields of the confirmed forecast, and the points and last
  result of every other account are what they were.
\<close>

theorem confirmPrediction_frame:
  assumes "confirmPrediction s env day = Inr s'"
  shows "owner s' = owner s \<and> lastPriceDay s' = lastPriceDay s \<and>
    dailyPrices s' = dailyPrices s \<and>
    (\<forall>a d. (a, d) \<noteq> (msg_sender env, day) \<longrightarrow> predictions s' a d = predictions s a d) \<and>
    predictions s' (msg_sender env) day =
      (predictions s (msg_sender env) day)\<lparr>claimed := True\<rparr> \<and>
    (\<forall>a. a \<noteq> msg_sender env \<longrightarrow> points s' a = points s a \<and> lastResult s' a = lastResult s a)"
  using assms
  by (auto simp: confirmPrediction_def nonPayable_def Let_def split: if_splits)

theorem confirmPrediction_frame_witness:
  "confirmPrediction scenario (envAt 2 0 101) 100 = Inr settled \<and>
   owner settled = owner scenario \<and> lastPriceDay settled = lastPriceDay scenario \<and>
   dailyPrices settled = dailyPrices scenario \<and>
   predictions settled 2 101 = predictions scenario 2 101 \<and>
   predictions settled 3 100 = predictions scenario 3 100 \<and>
   predictions settled 2 100 = (predictions scenario 2 100)\<lparr>claimed := True\<rparr> \<and>
   points settled 3 = points scenario 3 \<and> lastResult settled 3 = lastResult scenario 3"
proof -
  have f: "confirmPrediction scenario (envAt 2 0 101) 100 = Inr settled"
    by (simp add: settled_def execute_def scenario_eval eval_defs)
  from confirmPrediction_frame [OF f]
  have "owner settled = owner scenario \<and> lastPriceDay settled = lastPriceDay scenario \<and>
    dailyPrices settled = dailyPrices scenario \<and>
    ((2, 101) \<noteq> (msg_sender (envAt 2 0 101), 100::uint256) \<longrightarrow>
       predictions settled 2 101 = predictions scenario 2 101) \<and>
    ((3, 100) \<noteq> (msg_sender (envAt 2 0 101), 100::uint256) \<longrightarrow>
       predictions settled 3 100 = predictions scenario 3 100) \<and>
    predictions settled (msg_sender (envAt 2 0 101)) 100 =
      (predictions scenario (msg_sender (envAt 2 0 101)) 100)\<lparr>claimed := True\<rparr> \<and>
    (3 \<noteq> msg_sender (envAt 2 0 101) \<longrightarrow>
       points settled 3 = points scenario 3 \<and> lastResult settled 3 = lastResult scenario 3)"
    by blast
  with f show ?thesis by (simp add: envAt_def)
qed

subsection \<open>Failures\<close>

text \<open>
  Claim C7, as the code has it. When a call of \<^verbatim>\<open>transferOwnership\<close>,
  \<^verbatim>\<open>updateDailyPrice\<close>, \<^verbatim>\<open>submitPrediction\<close> or \<^verbatim>\<open>confirmPrediction\<close> fails, it has
  written nothing at the point where it reverts, and the transaction leaves the whole
  storage (recorded prices, forecasts, points, last results, owner, \<open>lastPriceDay\<close>) as it
  was. The error is a named error of that function when the call can reach its checks:
  \<open>OnlyOwner\<close> or \<open>InvalidOwner\<close>; \<open>OnlyOwner\<close>, \<open>InvalidPrice\<close> or
  \<open>PriceAlreadyUpdated\<close>; \<open>StakeRequired\<close>, \<open>StakeTooLarge\<close> or \<open>PredictionExists\<close>;
  \<open>PredictionMissing\<close>, \<open>PredictionAlreadyClaimed\<close>, \<open>ConfirmationTooEarly\<close> or
  \<open>PriceNotAvailable\<close>. Two failures have no named error: a call that carries value to
  one of the three functions that are not payable reverts without error data, and
  \<^verbatim>\<open>submitPrediction\<close> with a proof that the library rejects fails with the library's
  error.
\<close>

theorem failed_call_no_change:
  assumes "dispatch s env c = Inl (e, s')"
  shows "s' = s \<and> execute s env c = s \<and>
    (case c of
       TransferOwnership _ \<Rightarrow>
         (if msg_value env \<noteq> 0 then e = RevertWithoutData
          else e = OnlyOwner \<or> e = InvalidOwner)
     | UpdateDailyPrice _ \<Rightarrow>
         (if msg_value env \<noteq> 0 then e = RevertWithoutData
          else e = OnlyOwner \<or> e = InvalidPrice \<or> e = PriceAlreadyUpdated)
     | SubmitPrediction _ _ pr \<Rightarrow>
         e = StakeRequired \<or> e = StakeTooLarge \<or> e = PredictionExists \<or>
         e = InputVerificationFailed \<and> pr = ProofRejected
     | ConfirmPrediction _ \<Rightarrow>
         (if msg_value env \<noteq> 0 then e = RevertWithoutData
          else e = PredictionMissing \<or> e = PredictionAlreadyClaimed \<or>
               e = ConfirmationTooEarly \<or> e = PriceNotAvailable))"
proof -
  from assms have 1: "s' = s" by (rule revert_before_write)
  from assms have 2: "execute s env c = s" by (simp add: execute_def)
  from assms have 3: "(case c of
       TransferOwnership _ \<Rightarrow>
         (if msg_value env \<noteq> 0 then e = RevertWithoutData
          else e = OnlyOwner \<or> e = InvalidOwner)
     | UpdateDailyPrice _ \<Rightarrow>
         (if msg_value env \<noteq> 0 then e = RevertWithoutData
          else e = OnlyOwner \<or> e = InvalidPrice \<or> e = PriceAlreadyUpdated)
     | SubmitPrediction _ _ pr \<Rightarrow>
         e = StakeRequired \<or> e = StakeTooLarge \<or> e = PredictionExists \<or>
         e = InputVerificationFailed \<and> pr = ProofRejected
     | ConfirmPrediction _ \<Rightarrow>
         (if msg_value env \<noteq> 0 then e = RevertWithoutData
          else e = PredictionMissing \<or> e = PredictionAlreadyClaimed \<or>
               e = ConfirmationTooEarly \<or> e = PriceNotAvailable))"
    by (cases c)
      (auto simp: call_defs Let_def split: if_splits inputProof.splits externalE.splits)
  from 1 2 3 show ?thesis by blast
qed

text \<open>
  Against the claim as written: in the scenario, the confirmation of account 2 with 1 wei
  attached, and the owner's call of \<^verbatim>\<open>updateDailyPrice\<close> with 1 wei attached, revert
  without error data; and the submission of account 6 with a rejected proof fails with
  the library's error. None of them is one of the eleven errors of the contract.
\<close>

theorem failed_call_no_change_counterexample:
  "dispatch scenario (envAt 2 1 101) (ConfirmPrediction 100) =
     Inl (RevertWithoutData, scenario) \<and>
   dispatch scenario (envAt 1 1 101) (UpdateDailyPrice 66000) =
     Inl (RevertWithoutData, scenario) \<and>
   dispatch scenario (envAt 6 5 101)
     (SubmitPrediction (ExternalE 1) (ExternalE 1) ProofRejected) =
     Inl (InputVerificationFailed, scenario)"
proof -
  have "dispatch scenario (envAt 2 1 101) (ConfirmPrediction 100) =
     Inl (RevertWithoutData, scenario)"
    by (simp add: confirmPrediction_def nonPayable_def envAt_def)
  moreover have "dispatch scenario (envAt 1 1 101) (UpdateDailyPrice 66000) =
     Inl (RevertWithoutData, scenario)"
    by (simp add: updateDailyPrice_def nonPayable_def envAt_def)
  moreover have "dispatch scenario (envAt 6 5 101)
     (SubmitPrediction (ExternalE 1) (ExternalE 1) ProofRejected) =
     Inl (InputVerificationFailed, scenario)"
    by (simp add: scenario_eval eval_defs)
  ultimately show ?thesis by blast
qed

text \<open>
  One failing call of each function: by a stranger, by the owner with the price 0, with
  a nonzero stake where a forecast exists, and before the period has passed.
\<close>

theorem failed_call_no_change_witness:
  "dispatch scenario (envAt 2 0 101) (TransferOwnership 2) = Inl (OnlyOwner, scenario) \<and>
   execute scenario (envAt 2 0 101) (TransferOwnership 2) = scenario \<and>
   dispatch scenario (envAt 1 0 101) (UpdateDailyPrice 0) = Inl (InvalidPrice, scenario) \<and>
   execute scenario (envAt 1 0 101) (UpdateDailyPrice 0) = scenario \<and>
   dispatch scenario (envAt 2 5 101)
     (SubmitPrediction (ExternalE 1) (ExternalE 1) ProofAccepted) =
     Inl (PredictionExists, scenario) \<and>
   execute scenario (envAt 2 5 101)
     (SubmitPrediction (ExternalE 1) (ExternalE 1) ProofAccepted) = scenario \<and>
   dispatch scenario (envAt 2 0 101) (ConfirmPrediction 101) =
     Inl (ConfirmationTooEarly, scenario) \<and>
   execute scenario (envAt 2 0 101) (ConfirmPrediction 101) = scenario"
proof -
  have 1: "dispatch scenario (envAt 2 0 101) (TransferOwnership 2) = Inl (OnlyOwner, scenario)"
    by (simp add: scenario_eval eval_defs)
  have 2: "dispatch scenario (envAt 1 0 101) (UpdateDailyPrice 0) = Inl (InvalidPrice, scenario)"
    by (simp add: scenario_eval eval_defs)
  have 3: "dispatch scenario (envAt 2 5 101)
     (SubmitPrediction (ExternalE 1) (ExternalE 1) ProofAccepted) =
     Inl (PredictionExists, scenario)"
    by (simp add: scenario_eval eval_defs)
  have 4: "dispatch scenario (envAt 2 0 101) (ConfirmPrediction 101) =
     Inl (ConfirmationTooEarly, scenario)"
    by (simp add: scenario_eval eval_defs)
  from 1 2 3 4 failed_call_no_change [OF 1] failed_call_no_change [OF 2]
    failed_call_no_change [OF 3] failed_call_no_change [OF 4]
  show ?thesis by simp
qed

subsection \<open>Ownership\<close>

text \<open>
  Claim C8, as the code has it. The owner is not the null account in any reachable
  state. A constructor that succeeds makes the deploying caller the owner. For the calls
  that carry no value: called by the owner, \<^verbatim>\<open>transferOwnership\<close> reverts with
  \<open>InvalidOwner\<close> when the new owner is the null account, and makes the new owner the
  owner otherwise, changing nothing else; called by anyone else, \<^verbatim>\<open>transferOwnership\<close>
  and \<^verbatim>\<open>updateDailyPrice\<close> revert with \<open>OnlyOwner\<close>, whatever their arguments. A call of
  either function that carries value reverts without error data, whoever makes it:
  neither function is payable.
\<close>

theorem owner_never_null:
  "(reachable s \<longrightarrow> owner s \<noteq> 0) \<and>
   (constructor env0 = Inr s0 \<longrightarrow> owner s0 = msg_sender env0) \<and>
   (msg_value env = 0 \<and> msg_sender env = owner s \<longrightarrow>
      transferOwnership s env newOwner =
        (if newOwner = 0 then Inl (InvalidOwner, s) else Inr (s\<lparr>owner := newOwner\<rparr>))) \<and>
   (msg_value env = 0 \<and> msg_sender env \<noteq> owner s \<longrightarrow>
      transferOwnership s env newOwner = Inl (OnlyOwner, s) \<and>
      updateDailyPrice s env p = Inl (OnlyOwner, s)) \<and>
   (msg_value env \<noteq> 0 \<longrightarrow>
      transferOwnership s env newOwner = Inl (RevertWithoutData, s) \<and>
      updateDailyPrice s env p = Inl (RevertWithoutData, s))"
proof -
  have "constructor env0 = Inr s0 \<longrightarrow> owner s0 = msg_sender env0"
    by (auto simp: constructor_def split: if_splits)
  then show ?thesis
    by (simp add: reachable_owner transferOwnership_def updateDailyPrice_def onlyOwner_def
        nonPayable_def)
qed

text \<open>
  Against the claim as written: in the scenario, with 1 wei attached, the call of
  \<^verbatim>\<open>transferOwnership\<close> and the call of \<^verbatim>\<open>updateDailyPrice\<close> by account 2, which is not
  the owner, and the owner's call of \<^verbatim>\<open>transferOwnership\<close> for the null account revert
  without error data, not with \<open>OnlyOwner\<close> or \<open>InvalidOwner\<close>. And without value, the
  call of \<^verbatim>\<open>transferOwnership\<close> by account 2 for the null account fails with
  \<open>OnlyOwner\<close>, not with \<open>InvalidOwner\<close>.
\<close>

theorem owner_never_null_counterexample:
  "owner scenario = 1 \<and>
   transferOwnership scenario (envAt 2 1 101) 2 = Inl (RevertWithoutData, scenario) \<and>
   updateDailyPrice scenario (envAt 2 1 101) 66000 = Inl (RevertWithoutData, scenario) \<and>
   transferOwnership scenario (envAt 1 1 101) 0 = Inl (RevertWithoutData, scenario) \<and>
   transferOwnership scenario (envAt 2 0 101) 0 = Inl (OnlyOwner, scenario)"
proof -
  have "owner scenario = 1" by (simp add: scenario_eval)
  then show ?thesis
    by (simp add: transferOwnership_def updateDailyPrice_def onlyOwner_def nonPayable_def
        envAt_def)
qed

theorem owner_never_null_witness:
  "reachable scenario \<and> owner scenario = 1 \<and>
   constructor (envAt 1 0 100) = Inr deployed100 \<and> owner deployed100 = 1 \<and>
   transferOwnership scenario (envAt 1 0 101) 0 = Inl (InvalidOwner, scenario) \<and>
   transferOwnership scenario (envAt 1 0 101) 7 = Inr (scenario\<lparr>owner := 7\<rparr>) \<and>
   transferOwnership scenario (envAt 2 0 101) 2 = Inl (OnlyOwner, scenario) \<and>
   updateDailyPrice scenario (envAt 2 0 101) 1 = Inl (OnlyOwner, scenario) \<and>
   transferOwnership scenario (envAt 1 1 101) 7 = Inl (RevertWithoutData, scenario)"
proof -
  have o: "owner scenario = 1" by (simp add: scenario_eval)
  from scenario_reachable o deployed100_eval(1)
    owner_never_null [of scenario "envAt 1 0 100" deployed100 "envAt 1 0 101" 0]
    owner_never_null [of scenario _ _ "envAt 1 0 101" 7]
    owner_never_null [of scenario _ _ "envAt 2 0 101" 2 1]
    owner_never_null [of scenario _ _ "envAt 1 1 101" 7]
  show ?thesis by (simp add: envAt_def)
qed

subsection \<open>Recording the daily price\<close>

text \<open>
  Claim C3, as the code has it. \<^verbatim>\<open>updateDailyPrice\<close> succeeds at most once for a day:
  after a successful call, whatever transactions follow, every call in the same day
  fails. It succeeds only when the current day is strictly after \<open>lastPriceDay\<close>: any
  later day, not only the next one. A successful call stores the price under the
  current day and makes that day \<open>lastPriceDay\<close>, which so strictly increases. A call in a
  day that is not after \<open>lastPriceDay\<close> fails: with \<open>PriceAlreadyUpdated\<close> when it carries
  no value, the owner makes it and the price is not zero; the checks before that one
  revert without error data when the call carries value, and give \<open>OnlyOwner\<close> to another
  caller and \<open>InvalidPrice\<close> to the price zero.
\<close>

theorem updateDailyPrice_once:
  "(updateDailyPrice s env p = Inr s' \<longrightarrow>
      lastPriceDay s < getCurrentDay env \<and> lastPriceDay s' = getCurrentDay env \<and>
      dailyPrices s' (getCurrentDay env) = \<lparr>dayPrice = p, timestamp = block_timestamp env\<rparr>) \<and>
   (updateDailyPrice s env p = Inr s' \<and> getCurrentDay env' = getCurrentDay env \<longrightarrow>
      (\<exists>e. updateDailyPrice (run s' txs) env' p' = Inl (e, run s' txs))) \<and>
   (getCurrentDay env \<le> lastPriceDay s \<longrightarrow>
      updateDailyPrice s env p =
        Inl (if msg_value env \<noteq> 0 then RevertWithoutData
             else if msg_sender env \<noteq> owner s then OnlyOwner
             else if p = 0 then InvalidPrice else PriceAlreadyUpdated, s))"
proof -
  have 1: "lastPriceDay s < getCurrentDay env \<and> lastPriceDay s' = getCurrentDay env \<and>
      dailyPrices s' (getCurrentDay env) = \<lparr>dayPrice = p, timestamp = block_timestamp env\<rparr>"
    if "updateDailyPrice s env p = Inr s'"
    using that
    by (auto simp: updateDailyPrice_def onlyOwner_def nonPayable_def Let_def split: if_splits)
  have 3: "updateDailyPrice t e q =
        Inl (if msg_value e \<noteq> 0 then RevertWithoutData
             else if msg_sender e \<noteq> owner t then OnlyOwner
             else if q = 0 then InvalidPrice else PriceAlreadyUpdated, t)"
    if "getCurrentDay e \<le> lastPriceDay t" for t e q
    using that by (simp add: updateDailyPrice_def onlyOwner_def nonPayable_def Let_def)
  have 2: "\<exists>e. updateDailyPrice (run s' txs) env' p' = Inl (e, run s' txs)"
    if "updateDailyPrice s env p = Inr s' \<and> getCurrentDay env' = getCurrentDay env"
  proof -
    from that 1 have "lastPriceDay s' = getCurrentDay env'" by simp
    then have "getCurrentDay env' \<le> lastPriceDay (run s' txs)"
      using run_lastPriceDay [of s' txs] by simp
    from 3 [OF this] show ?thesis by blast
  qed
  from 1 2 3 show ?thesis by blast
qed

text \<open>
  Against the claim as written: after the deployment \<open>lastPriceDay\<close> is 0, and the
  owner's first call, in period 100 and not in period 1, succeeds. In period 100, which
  is then not after \<open>lastPriceDay\<close>, a call of account 2 fails with \<open>OnlyOwner\<close>, the
  owner's call with the price 0 with \<open>InvalidPrice\<close>, and the owner's call with 1 wei
  attached without error data.
\<close>

theorem updateDailyPrice_once_counterexample:
  "constructor (envAt 1 0 100) = Inr deployed100 \<and>
   lastPriceDay deployed100 = 0 \<and>
   getCurrentDay (envAt 1 0 100) = 100 \<and>
   updateDailyPrice deployed100 (envAt 1 0 100) 64000 = Inr firstRecord \<and>
   lastPriceDay firstRecord = 100 \<and>
   getCurrentDay (envAt 2 0 100) \<le> lastPriceDay firstRecord \<and>
   updateDailyPrice firstRecord (envAt 2 0 100) 64000 = Inl (OnlyOwner, firstRecord) \<and>
   updateDailyPrice firstRecord (envAt 1 0 100) 0 = Inl (InvalidPrice, firstRecord) \<and>
   updateDailyPrice firstRecord (envAt 1 1 100) 64000 = Inl (RevertWithoutData, firstRecord)"
  by (simp add: firstRecord_def deployed100_eval eval_defs)

text \<open>
  The first record; then the owner hands the contract to account 2, whose call in the
  same period fails, as the owner's own second call does.
\<close>

theorem updateDailyPrice_once_witness:
  "updateDailyPrice deployed100 (envAt 1 0 100) 64000 = Inr firstRecord \<and>
   lastPriceDay firstRecord = 100 \<and>
   (\<exists>e. updateDailyPrice (run firstRecord [(envAt 1 0 100, TransferOwnership 2)])
      (envAt 2 0 100) 65000 =
        Inl (e, run firstRecord [(envAt 1 0 100, TransferOwnership 2)])) \<and>
   updateDailyPrice firstRecord (envAt 1 0 100) 65000 = Inl (PriceAlreadyUpdated, firstRecord)"
proof -
  have f: "updateDailyPrice deployed100 (envAt 1 0 100) 64000 = Inr firstRecord"
    by (simp add: firstRecord_def deployed100_eval eval_defs)
  have d: "getCurrentDay (envAt 2 0 100) = getCurrentDay (envAt 1 0 100)"
    "getCurrentDay (envAt 1 0 100) = 100"
    by (simp_all add: envAt_def getCurrentDay_def)
  have o: "owner firstRecord = 1" "lastPriceDay firstRecord = 100"
    by (simp_all add: firstRecord_eval deployed100_eval(2))
  from f d o
    updateDailyPrice_once [of deployed100 "envAt 1 0 100" 64000 firstRecord
      "envAt 2 0 100" "[(envAt 1 0 100, TransferOwnership 2)]" 65000]
    updateDailyPrice_once [of firstRecord "envAt 1 0 100" 65000]
  show ?thesis by (simp add: envAt_def)
qed

subsection \<open>The order of the checks of a confirmation\<close>

text \<open>
  Claim C4, as the code has it. A call of \<^verbatim>\<open>confirmPrediction\<close> that carries value
  reverts without error data, since the function is not payable. Otherwise its checks
  come in a fixed order, \<open>PredictionMissing\<close>, \<open>PredictionAlreadyClaimed\<close>,
  \<open>ConfirmationTooEarly\<close>, \<open>PriceNotAvailable\<close>, and the first that fails gives the error.
  So, for a call without value and a forecast that exists and is not claimed: the call
  fails with \<open>ConfirmationTooEarly\<close> when its day is not before the current day, whether
  or not a price is recorded for it; and with \<open>PriceNotAvailable\<close> when its day is before
  the current day and no price is recorded for it. In any state, a call whose day is
  not before the current day, or for whose day no price is recorded, fails, and has
  written nothing.
\<close>

theorem confirmPrediction_guards:
  "(msg_value env \<noteq> 0 \<longrightarrow> confirmPrediction s env day = Inl (RevertWithoutData, s)) \<and>
   (msg_value env = 0 \<and>
    (stake (predictions s (msg_sender env) day) = 0 \<or>
     claimed (predictions s (msg_sender env) day) \<or>
     getCurrentDay env \<le> day \<or> timestamp (dailyPrices s day) = 0) \<longrightarrow>
      confirmPrediction s env day =
        Inl (if stake (predictions s (msg_sender env) day) = 0 then PredictionMissing
             else if claimed (predictions s (msg_sender env) day)
               then PredictionAlreadyClaimed
             else if getCurrentDay env \<le> day then ConfirmationTooEarly
             else PriceNotAvailable, s)) \<and>
   (msg_value env = 0 \<and> stake (predictions s (msg_sender env) day) \<noteq> 0 \<and>
    \<not> claimed (predictions s (msg_sender env) day) \<and> getCurrentDay env \<le> day \<longrightarrow>
      confirmPrediction s env day = Inl (ConfirmationTooEarly, s)) \<and>
   (msg_value env = 0 \<and> stake (predictions s (msg_sender env) day) \<noteq> 0 \<and>
    \<not> claimed (predictions s (msg_sender env) day) \<and> day < getCurrentDay env \<and>
    timestamp (dailyPrices s day) = 0 \<longrightarrow>
      confirmPrediction s env day = Inl (PriceNotAvailable, s)) \<and>
   (getCurrentDay env \<le> day \<or> timestamp (dailyPrices s day) = 0 \<longrightarrow>
      (\<exists>e. confirmPrediction s env day = Inl (e, s)))"
proof -
  have 1: "confirmPrediction s env day = Inl (RevertWithoutData, s)" if "msg_value env \<noteq> 0"
    using that by (simp add: confirmPrediction_def nonPayable_def)
  have 2: "confirmPrediction s env day =
        Inl (if stake (predictions s (msg_sender env) day) = 0 then PredictionMissing
             else if claimed (predictions s (msg_sender env) day)
               then PredictionAlreadyClaimed
             else if getCurrentDay env \<le> day then ConfirmationTooEarly
             else PriceNotAvailable, s)"
    if "msg_value env = 0 \<and>
      (stake (predictions s (msg_sender env) day) = 0 \<or>
       claimed (predictions s (msg_sender env) day) \<or>
       getCurrentDay env \<le> day \<or> timestamp (dailyPrices s day) = 0)"
    using that by (auto simp: confirmPrediction_def nonPayable_def Let_def)
  have 3: "confirmPrediction s env day = Inl (ConfirmationTooEarly, s)"
    if "msg_value env = 0 \<and> stake (predictions s (msg_sender env) day) \<noteq> 0 \<and>
      \<not> claimed (predictions s (msg_sender env) day) \<and> getCurrentDay env \<le> day"
    using that by (simp add: confirmPrediction_def nonPayable_def Let_def)
  have 4: "confirmPrediction s env day = Inl (PriceNotAvailable, s)"
    if "msg_value env = 0 \<and> stake (predictions s (msg_sender env) day) \<noteq> 0 \<and>
      \<not> claimed (predictions s (msg_sender env) day) \<and> day < getCurrentDay env \<and>
      timestamp (dailyPrices s day) = 0"
    using that by (auto simp: confirmPrediction_def nonPayable_def Let_def)
  have 5: "\<exists>e. confirmPrediction s env day = Inl (e, s)"
    if "getCurrentDay env \<le> day \<or> timestamp (dailyPrices s day) = 0"
    using that by (auto simp: confirmPrediction_def nonPayable_def Let_def)
  from 1 2 3 4 5 show ?thesis by blast
qed

text \<open>
  Against the claim as written: in period 101 no price is recorded for period 101, and
  the confirmation of account 2 for it fails with \<open>ConfirmationTooEarly\<close>, not with
  \<open>PriceNotAvailable\<close>; account 9, which has no forecast, confirms period 101 in
  period 101 and gets \<open>PredictionMissing\<close>, not \<open>ConfirmationTooEarly\<close>; and the
  confirmation of account 2 with 1 wei attached reverts without error data.
\<close>

theorem confirmPrediction_guards_counterexample:
  "timestamp (dailyPrices scenario 101) = 0 \<and>
   confirmPrediction scenario (envAt 2 0 101) 101 = Inl (ConfirmationTooEarly, scenario) \<and>
   getCurrentDay (envAt 9 0 101) \<le> 101 \<and>
   confirmPrediction scenario (envAt 9 0 101) 101 = Inl (PredictionMissing, scenario) \<and>
   getCurrentDay (envAt 2 1 101) \<le> 101 \<and>
   confirmPrediction scenario (envAt 2 1 101) 101 = Inl (RevertWithoutData, scenario)"
  by (simp add: scenario_eval eval_defs)

theorem confirmPrediction_guards_witness:
  "confirmPrediction scenario (envAt 2 0 101) 101 = Inl (ConfirmationTooEarly, scenario) \<and>
   confirmPrediction scenario (envAt 2 0 102) 101 = Inl (PriceNotAvailable, scenario) \<and>
   confirmPrediction scenario (envAt 9 0 101) 101 = Inl (PredictionMissing, scenario) \<and>
   confirmPrediction settled (envAt 2 0 102) 100 = Inl (PredictionAlreadyClaimed, settled) \<and>
   confirmPrediction scenario (envAt 2 1 102) 101 = Inl (RevertWithoutData, scenario)"
proof -
  have c: "claimed (predictions settled 2 100)"
    "stake (predictions settled 2 100) = 50000000000000000"
    by (simp_all add: settled_eval scenario_eval)
  from c
    confirmPrediction_guards [of "envAt 2 0 101" scenario 101]
    confirmPrediction_guards [of "envAt 2 0 102" scenario 101]
    confirmPrediction_guards [of "envAt 9 0 101" scenario 101]
    confirmPrediction_guards [of "envAt 2 0 102" settled 100]
    confirmPrediction_guards [of "envAt 2 1 102" scenario 101]
  show ?thesis
    by (simp add: scenario_eval envAt_def getCurrentDay_def noDailyPrice_def noPrediction_def)
qed

subsection \<open>One forecast for an account and a day\<close>

text \<open>
  Claim C5, as the code has it. \<^verbatim>\<open>submitPrediction\<close> succeeds at most once for an
  account and a day. Where the caller has a forecast with a nonzero stake for the
  current day, claimed or not, every call fails, having written nothing: with
  \<open>PredictionExists\<close> when it carries a stake between 1 and \<open>2 ^ 64 - 1\<close>; the two checks
  before it give \<open>StakeRequired\<close> to a call without value and \<open>StakeTooLarge\<close> to a value
  above \<open>2 ^ 64 - 1\<close>. After a successful call, whatever transactions follow, a call of
  the same account in the same day fails in that way.
\<close>

theorem submitPrediction_once:
  "(stake (predictions s (msg_sender env) (getCurrentDay env)) \<noteq> 0 \<longrightarrow>
      submitPrediction s env x d pr =
        Inl (if msg_value env = 0 then StakeRequired
             else if msg_value env > 0xFFFFFFFFFFFFFFFF then StakeTooLarge
             else PredictionExists, s)) \<and>
   (submitPrediction s env x d pr = Inr s' \<and> msg_sender env' = msg_sender env \<and>
    getCurrentDay env' = getCurrentDay env \<longrightarrow>
      submitPrediction (run s' txs) env' x' d' pr' =
        Inl (if msg_value env' = 0 then StakeRequired
             else if msg_value env' > 0xFFFFFFFFFFFFFFFF then StakeTooLarge
             else PredictionExists, run s' txs))"
proof -
  have k: "submitPrediction t e y dy q =
        Inl (if msg_value e = 0 then StakeRequired
             else if msg_value e > 0xFFFFFFFFFFFFFFFF then StakeTooLarge
             else PredictionExists, t)"
    if "stake (predictions t (msg_sender e) (getCurrentDay e)) \<noteq> 0" for t e y dy q
    using that by (simp add: submitPrediction_def Let_def)
  have 2: "submitPrediction (run s' txs) env' x' d' pr' =
        Inl (if msg_value env' = 0 then StakeRequired
             else if msg_value env' > 0xFFFFFFFFFFFFFFFF then StakeTooLarge
             else PredictionExists, run s' txs)"
    if a: "submitPrediction s env x d pr = Inr s' \<and> msg_sender env' = msg_sender env \<and>
      getCurrentDay env' = getCurrentDay env"
  proof -
    from a have v: "msg_value env \<noteq> 0" "msg_value env \<le> 0xFFFFFFFFFFFFFFFF"
      by (auto simp: submitPrediction_def Let_def split: if_splits)
    from a have "stake (predictions s' (msg_sender env') (getCurrentDay env')) =
        ucast (msg_value env)"
      by (auto simp: submitPrediction_def FHE_fromExternal_def Let_def
          split: if_splits inputProof.splits externalE.splits)
    with ucast_stake_nonzero [OF v]
    have "stake (predictions s' (msg_sender env') (getCurrentDay env')) \<noteq> 0" by simp
    then have "stake (predictions (run s' txs) (msg_sender env') (getCurrentDay env')) \<noteq> 0"
      using run_stake_claimed by blast
    then show ?thesis by (rule k)
  qed
  from k [of s env x d pr] 2 show ?thesis by blast
qed

text \<open>
  Against the claim as written: account 2 has a forecast for period 101, and its second
  call in that period, without value, fails with \<open>StakeRequired\<close>.
\<close>

theorem submitPrediction_once_counterexample:
  "stake (predictions scenario 2 101) = 50000000000000000 \<and>
   getCurrentDay (envAt 2 0 101) = 101 \<and>
   submitPrediction scenario (envAt 2 0 101) (ExternalE 70000) (ExternalE 1) ProofAccepted =
     Inl (StakeRequired, scenario)"
  by (simp add: scenario_eval eval_defs)

text \<open>
  A second call with a stake; a call with the timestamp of period 100 where the forecast
  of that period is settled (the model puts no order on the timestamps); and a second
  call of account 6 after its first and a transaction of the owner.
\<close>

theorem submitPrediction_once_witness:
  "submitPrediction scenario (envAt 2 7 101) (ExternalE 1) (ExternalE 2) ProofAccepted =
     Inl (PredictionExists, scenario) \<and>
   claimed (predictions settled 2 100) \<and>
   submitPrediction settled (envAt 2 7 100) (ExternalE 1) (ExternalE 2) ProofAccepted =
     Inl (PredictionExists, settled) \<and>
   submitPrediction
     (run (execute scenario (envAt 6 5 101)
            (SubmitPrediction (ExternalE 1) (ExternalE 1) ProofAccepted))
        [(envAt 1 0 101, UpdateDailyPrice 66000)])
     (envAt 6 9 101) (ExternalE 3) (ExternalE 2) ProofAccepted =
     Inl (PredictionExists,
       run (execute scenario (envAt 6 5 101)
              (SubmitPrediction (ExternalE 1) (ExternalE 1) ProofAccepted))
         [(envAt 1 0 101, UpdateDailyPrice 66000)])"
proof -
  let ?c = "SubmitPrediction (ExternalE 1) (ExternalE 1) ProofAccepted"
  have f: "submitPrediction scenario (envAt 6 5 101) (ExternalE 1) (ExternalE 1) ProofAccepted =
      Inr (execute scenario (envAt 6 5 101) ?c)"
    by (simp add: scenario_eval eval_defs)
  have c: "claimed (predictions settled 2 100)"
    "stake (predictions settled 2 100) = 50000000000000000"
    by (simp_all add: settled_eval scenario_eval)
  have k: "stake (predictions scenario 2 101) = 50000000000000000"
    by (simp add: scenario_eval)
  from f c k
    submitPrediction_once [of scenario "envAt 2 7 101" "ExternalE 1" "ExternalE 2" ProofAccepted]
    submitPrediction_once [of settled "envAt 2 7 100" "ExternalE 1" "ExternalE 2" ProofAccepted]
    submitPrediction_once [of scenario "envAt 6 5 101" "ExternalE 1" "ExternalE 1" ProofAccepted
      "execute scenario (envAt 6 5 101) ?c" "envAt 6 9 101"
      "[(envAt 1 0 101, UpdateDailyPrice 66000)]" "ExternalE 3" "ExternalE 2" ProofAccepted]
  show ?thesis by (simp add: envAt_def getCurrentDay_def)
qed

subsection \<open>The points of an account\<close>

text \<open>
  Claim C6, as the code has it. A transaction changes the points of an account by
  adding a reward to them, with \<^verbatim>\<open>FHE.add\<close>, that is, modulo \<open>2 ^ 64\<close>: the reward is 0, or
  it is the stake of the forecast that the account confirms in this transaction.
  Nothing is ever subtracted, and no other function writes the points. So the points
  of an account do not decrease in a transaction as long as points plus reward stay
  below \<open>2 ^ 64\<close>.
\<close>

theorem points_step:
  "\<exists>r. points (execute s env c) a = points s a + r \<and>
     (r = 0 \<or> (\<exists>day. c = ConfirmPrediction day \<and> a = msg_sender env \<and>
                 r = stake (predictions s a day))) \<and>
     (unat (points s a) + unat r < 2 ^ 64 \<longrightarrow> points s a \<le> points (execute s env c) a)"
proof -
  have "\<exists>r. points (execute s env c) a = points s a + r \<and>
     (r = 0 \<or> (\<exists>day. c = ConfirmPrediction day \<and> a = msg_sender env \<and>
                 r = stake (predictions s a day)))"
  proof (cases c)
    case (ConfirmPrediction day)
    then show ?thesis
      by (auto simp: execute_def confirmPrediction_def nonPayable_def calculateReward_def
          FHE_select_def FHE_add_def FHE_asEuint64_def Let_def)
  qed (auto simp: execute_def call_defs Let_def
        split: if_splits inputProof.splits externalE.splits)
  then obtain r where r: "points (execute s env c) a = points s a + r"
     "r = 0 \<or> (\<exists>day. c = ConfirmPrediction day \<and> a = msg_sender env \<and>
                 r = stake (predictions s a day))" by blast
  have "unat (points s a) + unat r < 2 ^ 64 \<longrightarrow> points s a \<le> points (execute s env c) a"
    using word_le_add_no_overflow [of "points s a" r] r(1) by simp
  with r show ?thesis by blast
qed

text \<open>
  Against the claim as written: account 2 has \<open>2 ^ 63\<close> points from its first forecast;
  it confirms its second one, which it wins with a stake of \<open>2 ^ 63\<close> wei, and has 0
  points.
\<close>

theorem points_step_counterexample:
  "reachable largeStakes \<and>
   points largeStakes 2 = 9223372036854775808 \<and>
   points (execute largeStakes (envAt 2 0 102) (ConfirmPrediction 101)) 2 = 0 \<and>
   \<not> points largeStakes 2 \<le>
       points (execute largeStakes (envAt 2 0 102) (ConfirmPrediction 101)) 2"
proof -
  have "points largeStakes 2 = 9223372036854775808"
    by (simp add: largeStakes_def deployed100_eval(2) eval_defs)
  moreover have "points (execute largeStakes (envAt 2 0 102) (ConfirmPrediction 101)) 2 = 0"
    by (simp add: largeStakes_def deployed100_eval(2) eval_defs)
  ultimately show ?thesis using largeStakes_reachable by simp
qed

theorem points_step_witness:
  "points scenario 2 \<le> points (execute scenario (envAt 2 0 101) (ConfirmPrediction 100)) 2"
proof -
  let ?s' = "execute scenario (envAt 2 0 101) (ConfirmPrediction 100)"
  from points_step [of scenario "envAt 2 0 101" "ConfirmPrediction 100" 2]
  obtain r where r: "r = 0 \<or> r = stake (predictions scenario 2 100)"
    "unat (points scenario 2) + unat r < 2 ^ 64 \<longrightarrow> points scenario 2 \<le> points ?s' 2"
    by auto
  from r(1) have "unat (points scenario 2) + unat r < 2 ^ 64"
    by (auto simp: scenario_eval)
  with r(2) show ?thesis by simp
qed

subsection \<open>Period 0\<close>

text \<open>
  Claim C10, as the code has it. \<open>lastPriceDay\<close> starts at 0 and \<^verbatim>\<open>updateDailyPrice\<close>
  rejects a current day that is not after it, so every call of \<^verbatim>\<open>updateDailyPrice\<close> in
  period 0 fails: with \<open>PriceAlreadyUpdated\<close> when it carries no value, the owner makes it
  and the price is not zero; the checks before that one revert without error data when
  the call carries value, and give \<open>OnlyOwner\<close> to another caller and \<open>InvalidPrice\<close> to
  the price zero. Hence in every reachable state there is no recorded price for
  period 0 and no confirmation of a forecast of period 0 succeeds; once period 0 has
  passed, the confirmation of a forecast submitted for it fails with
  \<open>PriceNotAvailable\<close> when it carries no value, and without error data when it carries
  value.
\<close>

theorem period_zero:
  "(getCurrentDay env = 0 \<longrightarrow>
      updateDailyPrice s env p =
        Inl (if msg_value env \<noteq> 0 then RevertWithoutData
             else if msg_sender env \<noteq> owner s then OnlyOwner
             else if p = 0 then InvalidPrice else PriceAlreadyUpdated, s)) \<and>
   (reachable s \<longrightarrow>
      dailyPrices s 0 = noDailyPrice \<and>
      (\<exists>e. confirmPrediction s env' 0 = Inl (e, s)) \<and>
      (stake (predictions s (msg_sender env') 0) \<noteq> 0 \<and> 0 < getCurrentDay env' \<longrightarrow>
         confirmPrediction s env' 0 =
           Inl (if msg_value env' \<noteq> 0 then RevertWithoutData else PriceNotAvailable, s)))"
proof -
  have 1: "updateDailyPrice s env p =
        Inl (if msg_value env \<noteq> 0 then RevertWithoutData
             else if msg_sender env \<noteq> owner s then OnlyOwner
             else if p = 0 then InvalidPrice else PriceAlreadyUpdated, s)"
    if "getCurrentDay env = 0"
    using that by (simp add: updateDailyPrice_def onlyOwner_def nonPayable_def Let_def)
  have 2: "dailyPrices s 0 = noDailyPrice" if "reachable s"
    using that by (rule reachable_day0)
  have 3: "\<exists>e. confirmPrediction s env' 0 = Inl (e, s)" if "reachable s"
    using 2 [OF that]
    by (simp add: confirmPrediction_def nonPayable_def Let_def noDailyPrice_def)
  have 4: "confirmPrediction s env' 0 =
           Inl (if msg_value env' \<noteq> 0 then RevertWithoutData else PriceNotAvailable, s)"
    if r: "reachable s"
      and a: "stake (predictions s (msg_sender env') 0) \<noteq> 0 \<and> 0 < getCurrentDay env'"
  proof -
    have "\<not> claimed (predictions s (msg_sender env') 0)"
      using reachable_claimed [OF r, of "msg_sender env'" 0] 2 [OF r]
      by (auto simp: noDailyPrice_def)
    moreover from a have "\<not> getCurrentDay env' \<le> 0"
      by auto
    ultimately show ?thesis
      using a 2 [OF r]
      by (simp add: confirmPrediction_def nonPayable_def Let_def noDailyPrice_def)
  qed
  from 1 2 3 4 show ?thesis by blast
qed

text \<open>
  Against the claim as written: in period 0, the call of account 2, which is not the
  owner, fails with \<open>OnlyOwner\<close>, the owner's call with the price 0 with
  \<open>InvalidPrice\<close>, and the owner's call with 1 wei attached without error data; and in
  period 1 the confirmation of account 2 for its forecast of period 0, with 1 wei
  attached, reverts without error data.
\<close>

theorem period_zero_counterexample:
  "getCurrentDay (envAt 2 0 0) = 0 \<and> owner periodZero = 1 \<and>
   updateDailyPrice periodZero (envAt 2 0 0) 64000 = Inl (OnlyOwner, periodZero) \<and>
   updateDailyPrice periodZero (envAt 1 0 0) 0 = Inl (InvalidPrice, periodZero) \<and>
   updateDailyPrice periodZero (envAt 1 1 0) 64000 = Inl (RevertWithoutData, periodZero) \<and>
   stake (predictions periodZero 2 0) = 5 \<and> getCurrentDay (envAt 2 1 1) = 1 \<and>
   confirmPrediction periodZero (envAt 2 1 1) 0 = Inl (RevertWithoutData, periodZero)"
proof -
  have o: "owner periodZero = 1" "stake (predictions periodZero 2 0) = 5"
    by (simp_all add: periodZero_def eval_defs)
  then show ?thesis
    by (simp add: updateDailyPrice_def confirmPrediction_def onlyOwner_def nonPayable_def
        envAt_def getCurrentDay_def)
qed

theorem period_zero_witness:
  "updateDailyPrice periodZero (envAt 1 0 0) 64000 = Inl (PriceAlreadyUpdated, periodZero) \<and>
   reachable periodZero \<and> dailyPrices periodZero 0 = noDailyPrice \<and>
   stake (predictions periodZero 2 0) = 5 \<and>
   confirmPrediction periodZero (envAt 2 0 1) 0 = Inl (PriceNotAvailable, periodZero)"
proof -
  have o: "owner periodZero = 1" "stake (predictions periodZero 2 0) = 5"
    by (simp_all add: periodZero_def eval_defs)
  from o periodZero_reachable
    period_zero [of "envAt 1 0 0" periodZero 64000 "envAt 2 0 1"]
  show ?thesis by (simp add: envAt_def getCurrentDay_def)
qed

end
